theory Spec2Isabelle
  imports Main
begin

section \<open>The environment binder of \<open>env.go\<close>\<close>

text \<open>
  The package binds environment variables to the fields of a struct (or to one variable)
  through \<open>reflect\<close>. The embedding keeps the functions of \<open>env.go\<close> and their names.
  What the package takes from the Go standard library is either modelled next to its use
  (\<open>reflect\<close>, \<open>os.Getenv\<close>, \<open>strings.SplitN\<close>) or passed as a parameter (the parsers of
  \<open>strconv\<close> and \<open>time\<close>), so that every theorem holds for whatever these parsers accept.
\<close>

subsection \<open>Constants\<close>

definition ENV :: string where "ENV = ''env''"
definition TIME_LAYOUT :: string where "TIME_LAYOUT = ''timeLayout''"
definition SEP :: string where "SEP = '',''"

text \<open>\<open>FieldErrorCode\<close> is an \<open>int\<close>; the four codes are \<open>1 << iota\<close>.\<close>

type_synonym FieldErrorCode = int

definition ENV_VAR_NOT_FOUND :: FieldErrorCode where "ENV_VAR_NOT_FOUND = 1"
definition ENV_VAR_PARSING_ERROR :: FieldErrorCode where "ENV_VAR_PARSING_ERROR = 2"
definition DEFAULT_VALUE_NOT_SPECIFIED :: FieldErrorCode where "DEFAULT_VALUE_NOT_SPECIFIED = 4"
definition DEFAULT_VALUE_PARSING_ERROR :: FieldErrorCode where "DEFAULT_VALUE_PARSING_ERROR = 8"
definition NIL :: FieldErrorCode where "NIL = 0"

subsection \<open>Go values as \<open>reflect\<close> sees them\<close>

datatype kind =
    KInvalid | KBool | KInt | KInt8 | KInt16 | KInt32 | KInt64
  | KUint | KUint8 | KUint16 | KUint32 | KUint64 | KUintptr
  | KFloat32 | KFloat64 | KComplex64 | KComplex128
  | KArray | KChan | KFunc | KInterface | KMap | KPointer | KSlice
  | KString | KStruct | KUnsafePointer

text \<open>
  A Go value: the five shapes the binder converts to, structs with their fields, and
  \<open>GOther k\<close> for a value of any other kind \<open>k\<close>. \<open>'f\<close> is \<open>float64\<close> and \<open>'t\<close> is
  \<open>time.Time\<close>; both stay abstract. A struct field carries its name, its tag (the
  key/value pairs of the conventional tag string), whether it is exported, and its value.
\<close>

datatype ('f, 't) gval =
    GString string
  | GInt int
  | GFloat64 'f
  | GBool bool
  | GTime 't
  | GStruct "('f, 't) sfield list"
  | GOther kind
and ('f, 't) sfield =
    SField (Name: string) (Tag: "(string \<times> string) list") (exported: bool)
           (fieldval: "('f, 't) gval")

text \<open>\<open>StructTag.Get\<close>: the value of the key, or the empty string.\<close>

definition Tag_Get :: "(string \<times> string) list \<Rightarrow> string \<Rightarrow> string" where
  "Tag_Get tag key = (case map_of tag key of None \<Rightarrow> [] | Some v \<Rightarrow> v)"

text \<open>
  A \<open>reflect.Value\<close>: the zero Value, or a value together with its settability flag.
  The storage it refers to is the value it carries; the setters return the new Value.
\<close>

datatype ('f, 't) Value = ZeroValue | Value bool "('f, 't) gval"

fun IsValid :: "('f, 't) Value \<Rightarrow> bool" where
  "IsValid ZeroValue = False"
| "IsValid (Value c v) = True"

fun CanSet :: "('f, 't) Value \<Rightarrow> bool" where
  "CanSet ZeroValue = False"
| "CanSet (Value c v) = c"

fun gkind :: "('f, 't) gval \<Rightarrow> kind" where
  "gkind (GString s) = KString"
| "gkind (GInt n) = KInt"
| "gkind (GFloat64 x) = KFloat64"
| "gkind (GBool b) = KBool"
| "gkind (GTime t) = KStruct"
| "gkind (GStruct fs) = KStruct"
| "gkind (GOther k) = k"

fun Kind :: "('f, 't) Value \<Rightarrow> kind" where
  "Kind ZeroValue = KInvalid"
| "Kind (Value c v) = gkind v"

text \<open>\<open>v.Type() == reflect.TypeOf(time.Time{})\<close>.\<close>

fun is_time_Time :: "('f, 't) Value \<Rightarrow> bool" where
  "is_time_Time (Value c (GTime t)) = True"
| "is_time_Time _ = False"

text \<open>
  The setters. \<open>validateAndSet\<close> calls them on settable Values of the right kind only,
  where they do not panic; on the zero Value they are the identity here.
\<close>

fun Set :: "('f, 't) Value \<Rightarrow> ('f, 't) gval \<Rightarrow> ('f, 't) Value" where
  "Set ZeroValue x = ZeroValue"
| "Set (Value c v) x = Value c x"

definition SetString :: "('f, 't) Value \<Rightarrow> string \<Rightarrow> ('f, 't) Value" where
  "SetString v s = Set v (GString s)"

definition SetInt :: "('f, 't) Value \<Rightarrow> int \<Rightarrow> ('f, 't) Value" where
  "SetInt v n = Set v (GInt n)"

definition SetFloat :: "('f, 't) Value \<Rightarrow> 'f \<Rightarrow> ('f, 't) Value" where
  "SetFloat v x = Set v (GFloat64 x)"

definition SetBool :: "('f, 't) Value \<Rightarrow> bool \<Rightarrow> ('f, 't) Value" where
  "SetBool v b = Set v (GBool b)"

text \<open>
  The \<open>interface{}\<close> argument of the entry points: a pointer to a value, a nil pointer, or
  \<open>NonPointer v\<close>, a value \<open>v\<close> that is not a pointer, passed as it is (a nil interface is
  \<open>NonPointer (GOther KInvalid)\<close>). \<open>reflect.ValueOf(p).Elem()\<close> panics with a
  \<open>reflect.ValueError\<close> unless \<open>p\<close> is a pointer, gives the zero Value for a nil pointer
  and the settable pointee otherwise.
\<close>

datatype ('f, 't) iface = NonPointer "('f, 't) gval" | NilPointer | Pointer "('f, 't) gval"

datatype panic = ValueError string kind

fun Elem :: "('f, 't) iface \<Rightarrow> panic + ('f, 't) Value" where
  "Elem (NonPointer v) = Inl (ValueError ''reflect.Value.Elem'' (gkind v))"
| "Elem NilPointer = Inr ZeroValue"
| "Elem (Pointer v) = Inr (Value True v)"

text \<open>The caller's variable after the call: what the Value now holds.\<close>

fun pointee :: "('f, 't) iface \<Rightarrow> ('f, 't) Value \<Rightarrow> ('f, 't) iface" where
  "pointee p ZeroValue = p"
| "pointee p (Value c v) = Pointer v"

text \<open>
  The fields of a struct Value. \<open>time.Time\<close> is a struct of three unexported, untagged
  fields, which the binder cannot set; any other struct shows the fields it carries.
\<close>

definition time_Time_fields :: "('f, 't) sfield list" where
  "time_Time_fields =
     [SField ''wall'' [] False (GOther KUint64),
      SField ''ext'' [] False (GOther KInt64),
      SField ''loc'' [] False (GOther KPointer)]"

fun struct_fields :: "('f, 't) Value \<Rightarrow> ('f, 't) sfield list" where
  "struct_fields (Value c (GStruct fs)) = fs"
| "struct_fields (Value c (GTime t)) = time_Time_fields"
| "struct_fields _ = []"

fun with_fields :: "('f, 't) Value \<Rightarrow> ('f, 't) sfield list \<Rightarrow> ('f, 't) Value" where
  "with_fields (Value c (GStruct fs)) fs' = Value c (GStruct fs')"
| "with_fields v fs' = v"

text \<open>
  \<open>value.Field(i)\<close> of an addressable struct is settable exactly when the field is
  exported.
\<close>

definition Field :: "('f, 't) sfield \<Rightarrow> ('f, 't) Value" where
  "Field f = Value (exported f) (fieldval f)"

fun field_store :: "('f, 't) sfield \<Rightarrow> ('f, 't) Value \<Rightarrow> ('f, 't) sfield" where
  "field_store f ZeroValue = f"
| "field_store f (Value c v) = SField (Name f) (Tag f) (exported f) v"

subsection \<open>The process environment and \<open>strings.SplitN\<close>\<close>

type_synonym environ = "string \<rightharpoonup> string"

text \<open>\<open>os.Getenv\<close>: the value of the variable, the empty string when it is not set.\<close>

definition Getenv :: "environ \<Rightarrow> string \<Rightarrow> string" where
  "Getenv env key = (case env key of None \<Rightarrow> [] | Some v \<Rightarrow> v)"

text \<open>\<open>strings.Index\<close> for a non-empty separator.\<close>

fun Index :: "string \<Rightarrow> string \<Rightarrow> nat option" where
  "Index [] sep = (if sep = [] then Some 0 else None)"
| "Index (c # cs) sep =
     (if take (length sep) (c # cs) = sep then Some 0
      else map_option Suc (Index cs sep))"

text \<open>\<open>strings.SplitN(s, sep, n)\<close> for a non-empty separator and \<open>n \<ge> 0\<close>.\<close>

fun SplitN :: "string \<Rightarrow> string \<Rightarrow> nat \<Rightarrow> string list" where
  "SplitN s sep 0 = []"
| "SplitN s sep (Suc 0) = [s]"
| "SplitN s sep (Suc (Suc n)) =
     (case Index s sep of
        None \<Rightarrow> [s]
      | Some m \<Rightarrow> take m s # SplitN (drop (m + length sep) s) sep (Suc n))"

subsection \<open>The parsers of the standard library\<close>

text \<open>
  A Go \<open>error\<close> returned by a parser is represented by its \<open>Error()\<close> text. The four
  parsers are parameters: \<open>Inl msg\<close> is a failure, \<open>Inr x\<close> the parsed value.
\<close>

record ('f, 't) stdlib =
  Atoi :: "string \<Rightarrow> string + int"
  ParseFloat :: "string \<Rightarrow> string + 'f"
  ParseBool :: "string \<Rightarrow> string + bool"
  time_Parse :: "string \<Rightarrow> string \<Rightarrow> string + 't"

subsection \<open>Field errors\<close>

record FieldError =
  FieldName :: string
  ErrorCode :: FieldErrorCode
  ErrorMsg :: string

text \<open>\<open>FieldError{}\<close>.\<close>

definition FieldError_zero :: FieldError where
  "FieldError_zero = \<lparr>FieldName = [], ErrorCode = 0, ErrorMsg = []\<rparr>"

text \<open>
  \<open>func (e FieldError) AddError(errorCode, errorMsg)\<close> has a value receiver and no result:
  it updates its own copy \<open>e\<close> of the receiver, and the copy is dropped when it returns.
  \<open>AddError_receiver\<close> is that copy after the two assignments.
\<close>

definition AddError_receiver :: "FieldError \<Rightarrow> FieldErrorCode \<Rightarrow> string \<Rightarrow> FieldError" where
  "AddError_receiver e errorCode errorMsg =
     e\<lparr>ErrorCode := ErrorCode e + errorCode,
       ErrorMsg := errorMsg @ [CHR 0x0A, CHR 0x0A] @ ErrorMsg e\<rparr>"

definition AddError :: "FieldError \<Rightarrow> FieldErrorCode \<Rightarrow> string \<Rightarrow> unit" where
  "AddError e errorCode errorMsg = (let e' = AddError_receiver e errorCode errorMsg in ())"

text \<open>The field \<open>ErrorMsg\<close> of \<open>StructError\<close> is named \<open>StructErrorMsg\<close> here.\<close>

record StructError =
  FieldErrors :: "FieldError list"
  StructErrorMsg :: string

text \<open>The \<open>error\<close> an entry point returns; \<open>None\<close> is \<open>nil\<close>.\<close>

datatype error = FieldErr FieldError | StructErr StructError

subsection \<open>fieldData and the setters\<close>

record ('f, 't) fieldData =
  envVarName :: string
  defaultVal :: string
  strVal :: string
  timeLayout :: string
  field :: "('f, 't) Value"

text \<open>\<open>fieldData{}\<close>.\<close>

definition fieldData_zero :: "('f, 't) fieldData" where
  "fieldData_zero =
     \<lparr>envVarName = [], defaultVal = [], strVal = [], timeLayout = [], field = ZeroValue\<rparr>"

text \<open>
  A setter takes the \<open>*fieldData\<close> and the text, and returns the fieldData it leaves
  behind together with its \<open>error\<close> (\<open>None\<close> is \<open>nil\<close>).
\<close>

type_synonym ('f, 't) setFunc =
  "('f, 't) fieldData \<Rightarrow> string \<Rightarrow> ('f, 't) fieldData \<times> string option"

definition setStrField :: "('f, 't) setFunc" where
  "setStrField fd valueToSet = (fd\<lparr>field := SetString (field fd) valueToSet\<rparr>, None)"

definition setIntField :: "('f, 't) stdlib \<Rightarrow> ('f, 't) setFunc" where
  "setIntField lib fd valueToSet =
     (case Atoi lib valueToSet of
        Inl err \<Rightarrow> (fd, Some err)
      | Inr intVal \<Rightarrow> (fd\<lparr>field := SetInt (field fd) intVal\<rparr>, None))"

definition setFloatField :: "('f, 't) stdlib \<Rightarrow> ('f, 't) setFunc" where
  "setFloatField lib fd valueToSet =
     (case ParseFloat lib valueToSet of
        Inl err \<Rightarrow> (fd, Some err)
      | Inr floatVal \<Rightarrow> (fd\<lparr>field := SetFloat (field fd) floatVal\<rparr>, None))"

definition setBoolField :: "('f, 't) stdlib \<Rightarrow> ('f, 't) setFunc" where
  "setBoolField lib fd valueToSet =
     (case ParseBool lib valueToSet of
        Inl err \<Rightarrow> (fd, Some err)
      | Inr boolVal \<Rightarrow> (fd\<lparr>field := SetBool (field fd) boolVal\<rparr>, None))"

definition setTimeField :: "('f, 't) stdlib \<Rightarrow> ('f, 't) setFunc" where
  "setTimeField lib fd valueToSet =
     (case time_Parse lib (timeLayout fd) valueToSet of
        Inl err \<Rightarrow> (fd, Some err)
      | Inr timeVal \<Rightarrow> (fd\<lparr>field := Set (field fd) (GTime timeVal)\<rparr>, None))"

subsection \<open>setField and validateAndSet\<close>

text \<open>
  Lines 185 to 194 of \<open>setField\<close>: the default value. Both branches of the first half
  that do not return fall through to it.
\<close>

definition setField_default ::
  "('f, 't) fieldData \<Rightarrow> ('f, 't) setFunc \<Rightarrow> FieldError \<Rightarrow> ('f, 't) fieldData \<times> FieldError"
where
  "setField_default fd setFunc fe =
     (if defaultVal fd \<noteq> [] then
        (case setFunc fd (defaultVal fd) of
           (fd', None) \<Rightarrow> (fd', fe)
         | (fd', Some err) \<Rightarrow>
             (let u = AddError fe DEFAULT_VALUE_PARSING_ERROR
                        (''Error while parsing the default value. Ignoring the field...''
                           @ [CHR 0x0A] @ err)
              in (fd', fe)))
      else
        (let u = AddError fe DEFAULT_VALUE_NOT_SPECIFIED
                   ''Default value not specified. Ignoring the field.''
         in (fd, fe)))"

definition setField ::
  "environ \<Rightarrow> ('f, 't) fieldData \<Rightarrow> ('f, 't) setFunc \<Rightarrow> ('f, 't) fieldData \<times> FieldError"
where
  "setField env fd0 setFunc =
     (let fd = fd0\<lparr>strVal := Getenv env (envVarName fd0)\<rparr>;
          fe = FieldError_zero
      in
        if strVal fd \<noteq> [] then
          (case setFunc fd (strVal fd) of
             (fd', None) \<Rightarrow> (fd', fe)
           | (fd', Some err) \<Rightarrow>
               (let u = AddError fe ENV_VAR_PARSING_ERROR
                          (''Error parsing env variable.Trying to set default value...''
                             @ [CHR 0x0A] @ err)
                in setField_default fd' setFunc fe))
        else
          (let u = AddError fe ENV_VAR_NOT_FOUND
                     ''Env Variable not found. Trying to set default value''
           in setField_default fd setFunc fe))"

definition validateAndSet ::
  "('f, 't) stdlib \<Rightarrow> environ \<Rightarrow> ('f, 't) fieldData \<Rightarrow> bool
     \<Rightarrow> ('f, 't) fieldData \<times> FieldError"
where
  "validateAndSet lib env fd withTime =
     (if IsValid (field fd) then
        if CanSet (field fd) then
          if Kind (field fd) = KString then setField env fd setStrField
          else if Kind (field fd) = KInt then setField env fd (setIntField lib)
          else if Kind (field fd) = KFloat64 then setField env fd (setFloatField lib)
          else if Kind (field fd) = KBool then setField env fd (setBoolField lib)
          else if withTime \<and> is_time_Time (field fd) then setField env fd (setTimeField lib)
          else (fd, FieldError_zero)
        else (fd, FieldError_zero)
      else (fd, FieldError_zero))"

subsection \<open>loadEnvVar and loadEnvVars\<close>

text \<open>
  An entry point either panics or returns; when it returns, the result is the caller's
  variable after the call and the \<open>error\<close>.
\<close>

type_synonym ('f, 't) outcome = "panic + (('f, 't) iface \<times> error option)"

definition loadEnvVar ::
  "('f, 't) stdlib \<Rightarrow> environ \<Rightarrow> ('f, 't) iface \<Rightarrow> string \<Rightarrow> string \<Rightarrow> bool \<Rightarrow> string
     \<Rightarrow> ('f, 't) outcome"
where
  "loadEnvVar lib env ptr envVarName' defaultVal' withTime timeLayout' =
     (case Elem ptr of
        Inl p \<Rightarrow> Inl p
      | Inr v \<Rightarrow>
          (let fd = \<lparr>envVarName = envVarName', defaultVal = defaultVal', strVal = [],
                     timeLayout = timeLayout', field = v\<rparr>;
               (fd', fe) = validateAndSet lib env fd withTime
           in
             if fe \<noteq> FieldError_zero
             then Inr (pointee ptr (field fd'), Some (FieldErr (fe\<lparr>FieldName := envVarName'\<rparr>)))
             else Inr (pointee ptr (field fd'), None)))"

text \<open>Lines 116 to 130: the fieldData of one struct field.\<close>

definition loadEnvVars_fieldData :: "bool \<Rightarrow> bool \<Rightarrow> ('f, 't) sfield \<Rightarrow> ('f, 't) fieldData" where
  "loadEnvVars_fieldData force withTime f =
     (let envVar = SplitN (Tag_Get (Tag f) ENV) SEP 2;
          fd0 = fieldData_zero;
          fd1 = (if length envVar \<ge> 1 then fd0\<lparr>envVarName := envVar ! 0\<rparr> else fd0);
          fd2 = (if length envVar \<ge> 2 then fd1\<lparr>defaultVal := envVar ! 1\<rparr> else fd1);
          fd3 = (if envVarName fd2 = [] \<and> force then fd2\<lparr>envVarName := Name f\<rparr> else fd2);
          fd4 = (if withTime then fd3\<lparr>timeLayout := Tag_Get (Tag f) TIME_LAYOUT\<rparr> else fd3)
      in fd4\<lparr>field := Field f\<rparr>)"

text \<open>
  One round of the loop: the field after the round and the \<open>FieldErrors\<close> collected so
  far.
\<close>

definition loadEnvVars_field ::
  "('f, 't) stdlib \<Rightarrow> environ \<Rightarrow> bool \<Rightarrow> bool \<Rightarrow> ('f, 't) sfield \<Rightarrow> FieldError list
     \<Rightarrow> ('f, 't) sfield \<times> FieldError list"
where
  "loadEnvVars_field lib env force withTime f errs =
     (let fd = loadEnvVars_fieldData force withTime f
      in
        if envVarName fd \<noteq> [] then
          (let (fd', fe) = validateAndSet lib env fd withTime
           in
             if fe \<noteq> FieldError_zero
             then (field_store f (field fd'), errs @ [fe\<lparr>FieldName := Name f\<rparr>])
             else (field_store f (field fd'), errs))
        else (f, errs))"

fun loadEnvVars_loop ::
  "('f, 't) stdlib \<Rightarrow> environ \<Rightarrow> bool \<Rightarrow> bool \<Rightarrow> ('f, 't) sfield list \<Rightarrow> FieldError list
     \<Rightarrow> ('f, 't) sfield list \<times> FieldError list"
where
  "loadEnvVars_loop lib env force withTime [] errs = ([], errs)"
| "loadEnvVars_loop lib env force withTime (f # fs) errs =
     (let (f', errs') = loadEnvVars_field lib env force withTime f errs;
          (fs', errs'') = loadEnvVars_loop lib env force withTime fs errs'
      in (f' # fs', errs''))"

definition loadEnvVars ::
  "('f, 't) stdlib \<Rightarrow> environ \<Rightarrow> ('f, 't) iface \<Rightarrow> bool \<Rightarrow> bool \<Rightarrow> ('f, 't) outcome"
where
  "loadEnvVars lib env structPtr force withTime =
     (case Elem structPtr of
        Inl p \<Rightarrow> Inl p
      | Inr v \<Rightarrow>
          (let (v', errs) =
                 (if Kind v = KStruct
                  then (let (fs', errs) = loadEnvVars_loop lib env force withTime (struct_fields v) []
                        in (with_fields v fs', errs))
                  else (v, []))
           in
             if errs \<noteq> []
             then Inr (pointee structPtr v',
                       Some (StructErr \<lparr>FieldErrors = errs, StructErrorMsg = []\<rparr>))
             else Inr (pointee structPtr v', None)))"

subsection \<open>The public entry points\<close>

definition LoadEnvVars :: "('f, 't) stdlib \<Rightarrow> environ \<Rightarrow> ('f, 't) iface \<Rightarrow> ('f, 't) outcome" where
  "LoadEnvVars lib env structPtr = loadEnvVars lib env structPtr False False"

definition LoadEnvVarsF :: "('f, 't) stdlib \<Rightarrow> environ \<Rightarrow> ('f, 't) iface \<Rightarrow> ('f, 't) outcome" where
  "LoadEnvVarsF lib env structPtr = loadEnvVars lib env structPtr True False"

definition LoadEnvVarsT :: "('f, 't) stdlib \<Rightarrow> environ \<Rightarrow> ('f, 't) iface \<Rightarrow> ('f, 't) outcome" where
  "LoadEnvVarsT lib env structPtr = loadEnvVars lib env structPtr False True"

definition LoadEnvVarsTF :: "('f, 't) stdlib \<Rightarrow> environ \<Rightarrow> ('f, 't) iface \<Rightarrow> ('f, 't) outcome" where
  "LoadEnvVarsTF lib env structPtr = loadEnvVars lib env structPtr True True"

definition LoadEnvVar ::
  "('f, 't) stdlib \<Rightarrow> environ \<Rightarrow> ('f, 't) iface \<Rightarrow> string \<Rightarrow> string \<Rightarrow> ('f, 't) outcome"
where
  "LoadEnvVar lib env ptr envVarName' defaultVal' =
     loadEnvVar lib env ptr envVarName' defaultVal' False []"

definition LoadEnvVarT ::
  "('f, 't) stdlib \<Rightarrow> environ \<Rightarrow> ('f, 't) iface \<Rightarrow> string \<Rightarrow> string \<Rightarrow> string
     \<Rightarrow> ('f, 't) outcome"
where
  "LoadEnvVarT lib env ptr envVarName' defaultVal' timeLayout' =
     loadEnvVar lib env ptr envVarName' defaultVal' True timeLayout'"

subsection \<open>The conversion the specification speaks of\<close>

text \<open>
  These two definitions are not in \<open>env.go\<close>; they state, in the specification's words,
  what a field should hold. \<open>parsed_as\<close> is the value a text parses to for the kind of
  the field that holds \<open>v\<close> (\<open>None\<close> when the text does not parse or the kind is not
  supported); \<open>resolved\<close> is the parsed environment value if there is one, else the parsed
  default if there is one, else the prior value.
\<close>

definition parsed_as ::
  "('f, 't) stdlib \<Rightarrow> bool \<Rightarrow> string \<Rightarrow> ('f, 't) gval \<Rightarrow> string \<Rightarrow> ('f, 't) gval option"
where
  "parsed_as lib withTime layout v s =
     (if gkind v = KString then Some (GString s)
      else if gkind v = KInt then
        (case Atoi lib s of Inl err \<Rightarrow> None | Inr n \<Rightarrow> Some (GInt n))
      else if gkind v = KFloat64 then
        (case ParseFloat lib s of Inl err \<Rightarrow> None | Inr x \<Rightarrow> Some (GFloat64 x))
      else if gkind v = KBool then
        (case ParseBool lib s of Inl err \<Rightarrow> None | Inr b \<Rightarrow> Some (GBool b))
      else if withTime \<and> is_time_Time (Value True v) then
        (case time_Parse lib layout s of Inl err \<Rightarrow> None | Inr t \<Rightarrow> Some (GTime t))
      else None)"

definition resolved ::
  "('f, 't) stdlib \<Rightarrow> bool \<Rightarrow> string \<Rightarrow> ('f, 't) gval \<Rightarrow> string \<Rightarrow> string \<Rightarrow> ('f, 't) gval"
where
  "resolved lib withTime layout v s d =
     (case (if s \<noteq> [] then parsed_as lib withTime layout v s else None) of
        Some v1 \<Rightarrow> v1
      | None \<Rightarrow>
          (case (if d \<noteq> [] then parsed_as lib withTime layout v d else None) of
             Some v2 \<Rightarrow> v2
           | None \<Rightarrow> v))"

text \<open>
  A struct field after its round of the loop of \<open>loadEnvVars\<close> (the round does not read
  the errors collected so far).
\<close>

definition loaded_field ::
  "('f, 't) stdlib \<Rightarrow> environ \<Rightarrow> bool \<Rightarrow> bool \<Rightarrow> ('f, 't) sfield \<Rightarrow> ('f, 't) sfield"
where
  "loaded_field lib env force withTime f = fst (loadEnvVars_field lib env force withTime f [])"

subsection \<open>A standard library to evaluate with\<close>

text \<open>
  The theorems below hold for every \<open>stdlib\<close>. To run the binder on concrete inputs,
  \<open>test_stdlib\<close> supplies one: \<open>strconv.Atoi\<close> and \<open>strconv.ParseBool\<close> as the Go
  documentation describes them (\<open>int\<close> is 64 bits wide; the text of a \<open>NumError\<close> quotes
  its input without escapes), and, for \<open>strconv.ParseFloat\<close> and \<open>time.Parse\<close>, the two
  results that \<open>env_test.go\<close> relies on, a \<open>float64\<close> and a \<open>time.Time\<close> being denoted by
  their printed form.
\<close>

datatype numError = ErrSyntax | ErrRange

definition is_digit :: "char \<Rightarrow> bool" where
  "is_digit c \<longleftrightarrow> 48 \<le> (of_char c :: int) \<and> (of_char c :: int) \<le> 57"

text \<open>
  The digits of \<open>strconv.ParseUint(s, 10, 64)\<close>, read left to right: a byte that is not a
  digit is a syntax error, a value above \<open>1<<64 - 1\<close> a range error.
\<close>

fun ParseUint_digits :: "int \<Rightarrow> string \<Rightarrow> numError + int" where
  "ParseUint_digits n [] = Inr n"
| "ParseUint_digits n (c # cs) =
     (if \<not> is_digit c then Inl ErrSyntax
      else if n * 10 + (of_char c - 48) > 2 ^ 64 - 1 then Inl ErrRange
      else ParseUint_digits (n * 10 + (of_char c - 48)) cs)"

definition NumError_text :: "string \<Rightarrow> string \<Rightarrow> numError \<Rightarrow> string" where
  "NumError_text fn s e =
     ''strconv.'' @ fn @ '': parsing '' @ [CHR 0x22] @ s @ [CHR 0x22] @ '': ''
       @ (case e of ErrSyntax \<Rightarrow> ''invalid syntax'' | ErrRange \<Rightarrow> ''value out of range'')"

text \<open>
  \<open>strconv.Atoi\<close>: an optional sign, at least one digit, and a value within \<open>int64\<close>.
\<close>

definition strconv_Atoi :: "string \<Rightarrow> string + int" where
  "strconv_Atoi s =
     (let neg = (s \<noteq> [] \<and> hd s = CHR ''-'');
          ds = (if s \<noteq> [] \<and> (hd s = CHR ''-'' \<or> hd s = CHR ''+'') then tl s else s)
      in
        if ds = [] then Inl (NumError_text ''Atoi'' s ErrSyntax)
        else
          (case ParseUint_digits 0 ds of
             Inl ErrSyntax \<Rightarrow> Inl (NumError_text ''Atoi'' s ErrSyntax)
           | Inl ErrRange \<Rightarrow> Inl (NumError_text ''Atoi'' s ErrRange)
           | Inr un \<Rightarrow>
               if \<not> neg \<and> un \<ge> 2 ^ 63 then Inl (NumError_text ''Atoi'' s ErrRange)
               else if neg \<and> un > 2 ^ 63 then Inl (NumError_text ''Atoi'' s ErrRange)
               else Inr (if neg then - un else un)))"

text \<open>\<open>strconv.ParseBool\<close> accepts exactly these twelve texts.\<close>

definition strconv_ParseBool :: "string \<Rightarrow> string + bool" where
  "strconv_ParseBool str =
     (if str \<in> set [''1'', ''t'', ''T'', ''TRUE'', ''true'', ''True''] then Inr True
      else if str \<in> set [''0'', ''f'', ''F'', ''FALSE'', ''false'', ''False''] then Inr False
      else Inl (NumError_text ''ParseBool'' str ErrSyntax))"

definition test_stdlib :: "(string, string) stdlib" where
  "test_stdlib =
     \<lparr>Atoi = strconv_Atoi,
      ParseFloat = (\<lambda>s. if s = ''3.14'' then Inr ''3.14''
                         else Inl (NumError_text ''ParseFloat'' s ErrSyntax)),
      ParseBool = strconv_ParseBool,
      time_Parse = (\<lambda>layout s.
         if layout = ''02/01/2006'' \<and> s = ''01/11/2017''
         then Inr ''2017-11-01 00:00:00 +0000 UTC''
         else Inl (''parsing time '' @ [CHR 0x22] @ s @ [CHR 0x22]))\<rparr>"

section \<open>Properties\<close>

subsection \<open>What setField and the loop compute\<close>

text \<open>
  \<open>AddError\<close> returns nothing and the \<open>fe\<close> of \<open>setField\<close> is never assigned, so the
  \<open>FieldError\<close> that comes back is the zero one.
\<close>

lemma setField_default_snd: "snd (setField_default fd sf fe) = fe"
  by (simp add: setField_default_def Let_def split: prod.splits option.splits)

lemma setField_snd: "snd (setField env fd sf) = FieldError_zero"
  by (simp add: setField_def Let_def setField_default_snd split: prod.splits option.splits)

lemma validateAndSet_snd: "snd (validateAndSet lib env fd withTime) = FieldError_zero"
  by (simp add: validateAndSet_def setField_snd)


lemma setField_field_str:
  "field fd = Value True v \<Longrightarrow> gkind v = KString \<Longrightarrow>
   field (fst (setField env fd setStrField)) =
     Value True (resolved lib withTime (timeLayout fd) v (Getenv env (envVarName fd)) (defaultVal fd))"
  by (simp add: setField_def setField_default_def setStrField_def SetString_def Let_def
        resolved_def parsed_as_def)

lemma setField_field_int:
  "field fd = Value True v \<Longrightarrow> gkind v = KInt \<Longrightarrow>
   field (fst (setField env fd (setIntField lib))) =
     Value True (resolved lib withTime (timeLayout fd) v (Getenv env (envVarName fd)) (defaultVal fd))"
  by (simp add: setField_def setField_default_def setIntField_def SetInt_def Let_def
        resolved_def parsed_as_def split: sum.splits)

lemma setField_field_float:
  "field fd = Value True v \<Longrightarrow> gkind v = KFloat64 \<Longrightarrow>
   field (fst (setField env fd (setFloatField lib))) =
     Value True (resolved lib withTime (timeLayout fd) v (Getenv env (envVarName fd)) (defaultVal fd))"
  by (simp add: setField_def setField_default_def setFloatField_def SetFloat_def Let_def
        resolved_def parsed_as_def split: sum.splits)

lemma setField_field_bool:
  "field fd = Value True v \<Longrightarrow> gkind v = KBool \<Longrightarrow>
   field (fst (setField env fd (setBoolField lib))) =
     Value True (resolved lib withTime (timeLayout fd) v (Getenv env (envVarName fd)) (defaultVal fd))"
  by (simp add: setField_def setField_default_def setBoolField_def SetBool_def Let_def
        resolved_def parsed_as_def split: sum.splits)

lemma setField_field_time:
  "field fd = Value True (GTime t) \<Longrightarrow>
   field (fst (setField env fd (setTimeField lib))) =
     Value True (resolved lib True (timeLayout fd) (GTime t) (Getenv env (envVarName fd)) (defaultVal fd))"
  by (simp add: setField_def setField_default_def setTimeField_def Let_def
        resolved_def parsed_as_def split: sum.splits)

lemma resolved_unsupported:
  "gkind v \<noteq> KString \<Longrightarrow> gkind v \<noteq> KInt \<Longrightarrow> gkind v \<noteq> KFloat64 \<Longrightarrow> gkind v \<noteq> KBool \<Longrightarrow>
   \<not> (withTime \<and> is_time_Time (Value True v)) \<Longrightarrow> resolved lib withTime layout v s d = v"
proof -
  assume "gkind v \<noteq> KString" "gkind v \<noteq> KInt" "gkind v \<noteq> KFloat64" "gkind v \<noteq> KBool"
    "\<not> (withTime \<and> is_time_Time (Value True v))"
  then have "parsed_as lib withTime layout v x = None" for x
    unfolding parsed_as_def by auto
  then show ?thesis by (simp add: resolved_def)
qed

lemma validateAndSet_field:
  assumes "field fd = Value True v"
  shows "field (fst (validateAndSet lib env fd withTime)) =
     Value True (resolved lib withTime (timeLayout fd) v (Getenv env (envVarName fd)) (defaultVal fd))"
proof -
  consider (str) "gkind v = KString" | (int) "gkind v \<noteq> KString" "gkind v = KInt"
    | (float) "gkind v = KFloat64" | (bool) "gkind v = KBool"
    | (time) t where "withTime" "v = GTime t"
    | (other) "gkind v \<noteq> KString" "gkind v \<noteq> KInt" "gkind v \<noteq> KFloat64" "gkind v \<noteq> KBool"
        "\<not> (withTime \<and> is_time_Time (Value True v))"
    by (cases v) auto
  then show ?thesis
  proof cases
    case str
    with assms show ?thesis by (simp add: validateAndSet_def setField_field_str)
  next
    case int
    with assms show ?thesis by (simp add: validateAndSet_def setField_field_int)
  next
    case float
    with assms show ?thesis by (simp add: validateAndSet_def setField_field_float)
  next
    case bool
    with assms show ?thesis by (simp add: validateAndSet_def setField_field_bool)
  next
    case time
    with assms show ?thesis by (simp add: validateAndSet_def setField_field_time)
  next
    case other
    with assms show ?thesis by (auto simp add: validateAndSet_def resolved_unsupported)
  qed
qed

lemma validateAndSet_not_settable:
  "\<not> CanSet (field fd) \<Longrightarrow> validateAndSet lib env fd withTime = (fd, FieldError_zero)"
  by (simp add: validateAndSet_def)

text \<open>loadEnvVar on a pointer.\<close>

lemma loadEnvVar_Pointer:
  "loadEnvVar lib env (Pointer v) nm d withTime layout =
     Inr (Pointer (resolved lib withTime layout v (Getenv env nm) d), None)"
proof -
  let ?fd = "\<lparr>envVarName = nm, defaultVal = d, strVal = [], timeLayout = layout,
              field = Value True v\<rparr>"
  obtain fd' fe where r: "validateAndSet lib env ?fd withTime = (fd', fe)"
    by (cases "validateAndSet lib env ?fd withTime")
  have "fe = FieldError_zero" using validateAndSet_snd [of lib env ?fd withTime] r by simp
  moreover have "field fd' = Value True (resolved lib withTime layout v (Getenv env nm) d)"
    using validateAndSet_field [of ?fd v lib env withTime] r by simp
  ultimately show ?thesis by (simp add: loadEnvVar_def r)
qed

lemma loadEnvVar_NilPointer:
  "loadEnvVar lib env NilPointer nm d withTime layout = Inr (NilPointer, None)"
  by (simp add: loadEnvVar_def validateAndSet_def)

lemma loadEnvVar_NonPointer:
  "loadEnvVar lib env (NonPointer v) nm d withTime layout
     = Inl (ValueError ''reflect.Value.Elem'' (gkind v))"
  by (simp add: loadEnvVar_def)

text \<open>One round of the loop.\<close>

lemma loadEnvVars_field_snd:
  "snd (loadEnvVars_field lib env force withTime f errs) = errs"
proof -
  let ?fd = "loadEnvVars_fieldData force withTime f"
  obtain fd' fe where r: "validateAndSet lib env ?fd withTime = (fd', fe)"
    by (cases "validateAndSet lib env ?fd withTime")
  have "fe = FieldError_zero" using validateAndSet_snd [of lib env ?fd withTime] r by simp
  then show ?thesis by (simp add: loadEnvVars_field_def Let_def r)
qed

lemma field_loadEnvVars_fieldData:
  "field (loadEnvVars_fieldData force withTime f) = Field f"
  by (simp add: loadEnvVars_fieldData_def Let_def)

lemma loadEnvVars_field_fst:
  "fst (loadEnvVars_field lib env force withTime f errs) =
     (let fd = loadEnvVars_fieldData force withTime f
      in if envVarName fd \<noteq> [] \<and> exported f
         then SField (Name f) (Tag f) (exported f)
                (resolved lib withTime (timeLayout fd) (fieldval f)
                   (Getenv env (envVarName fd)) (defaultVal fd))
         else f)"
proof -
  let ?fd = "loadEnvVars_fieldData force withTime f"
  obtain fd' fe where r: "validateAndSet lib env ?fd withTime = (fd', fe)"
    by (cases "validateAndSet lib env ?fd withTime")
  have fe: "fe = FieldError_zero" using validateAndSet_snd [of lib env ?fd withTime] r by simp
  show ?thesis
  proof (cases "exported f")
    case True
    then have "field ?fd = Value True (fieldval f)"
      by (simp add: field_loadEnvVars_fieldData Field_def)
    from validateAndSet_field [OF this, of lib env withTime] r
    have "field fd' = Value True (resolved lib withTime (timeLayout ?fd) (fieldval f)
                   (Getenv env (envVarName ?fd)) (defaultVal ?fd))" by simp
    with True fe show ?thesis by (simp add: loadEnvVars_field_def Let_def r)
  next
    case False
    then have "\<not> CanSet (field ?fd)" by (simp add: field_loadEnvVars_fieldData Field_def)
    from validateAndSet_not_settable [OF this, of lib env withTime] r
    have "fd' = ?fd" by simp
    moreover have "SField (Name f) (Tag f) (exported f) (fieldval f) = f" by simp
    ultimately show ?thesis using False fe
      by (simp add: loadEnvVars_field_def Let_def r field_loadEnvVars_fieldData Field_def)
  qed
qed

text \<open>The whole loop.\<close>

lemma loadEnvVars_loop_eq:
  "loadEnvVars_loop lib env force withTime fs errs =
     (map (loaded_field lib env force withTime) fs, errs)"
proof (induction fs arbitrary: errs)
  case Nil
  show ?case by simp
next
  case (Cons f fs)
  obtain f' e' where r: "loadEnvVars_field lib env force withTime f errs = (f', e')"
    by (cases "loadEnvVars_field lib env force withTime f errs")
  have "e' = errs" using loadEnvVars_field_snd [of lib env force withTime f errs] r by simp
  moreover have "f' = loaded_field lib env force withTime f"
    using loadEnvVars_field_fst [of lib env force withTime f errs]
      loadEnvVars_field_fst [of lib env force withTime f "[]"] r
    by (simp add: loaded_field_def)
  ultimately show ?case using Cons.IH by (simp add: r)
qed

lemma loadEnvVars_GStruct:
  "loadEnvVars lib env (Pointer (GStruct fs)) force withTime =
     Inr (Pointer (GStruct (map (loaded_field lib env force withTime) fs)), None)"
  by (simp add: loadEnvVars_def loadEnvVars_loop_eq)

lemma loadEnvVars_GTime:
  "loadEnvVars lib env (Pointer (GTime t)) force withTime = Inr (Pointer (GTime t), None)"
  by (simp add: loadEnvVars_def loadEnvVars_loop_eq)

lemma loadEnvVars_not_struct:
  "gkind v \<noteq> KStruct \<Longrightarrow> loadEnvVars lib env (Pointer v) force withTime = Inr (Pointer v, None)"
  by (simp add: loadEnvVars_def)

lemma loadEnvVars_NilPointer:
  "loadEnvVars lib env NilPointer force withTime = Inr (NilPointer, None)"
  by (simp add: loadEnvVars_def)

lemma loadEnvVars_NonPointer:
  "loadEnvVars lib env (NonPointer v) force withTime
     = Inl (ValueError ''reflect.Value.Elem'' (gkind v))"
  by (simp add: loadEnvVars_def)

lemma loadEnvVars_Pointer:
  "\<exists>v'. loadEnvVars lib env (Pointer v) force withTime = Inr (Pointer v', None)"
proof (cases "gkind v = KStruct")
  case True
  then show ?thesis
    by (cases "with_fields (Value True v)
                 (map (loaded_field lib env force withTime) (struct_fields (Value True v)))")
       (simp_all add: loadEnvVars_def loadEnvVars_loop_eq)
next
  case False
  then show ?thesis by (simp add: loadEnvVars_def)
qed

lemma loaded_field_eq:
  "loaded_field lib env force withTime f =
     (let fd = loadEnvVars_fieldData force withTime f
      in if envVarName fd \<noteq> [] \<and> exported f
         then SField (Name f) (Tag f) (exported f)
                (resolved lib withTime (timeLayout fd) (fieldval f)
                   (Getenv env (envVarName fd)) (defaultVal fd))
         else f)"
  unfolding loaded_field_def by (rule loadEnvVars_field_fst)

lemma resolved_env:
  "s \<noteq> [] \<Longrightarrow> parsed_as lib withTime layout v s = Some v' \<Longrightarrow>
   resolved lib withTime layout v s d = v'"
  by (simp add: resolved_def)

lemma resolved_default:
  "s = [] \<or> parsed_as lib withTime layout v s = None \<Longrightarrow> d \<noteq> [] \<Longrightarrow>
   parsed_as lib withTime layout v d = Some v' \<Longrightarrow>
   resolved lib withTime layout v s d = v'"
  by (auto simp add: resolved_def)

lemma resolved_cases:
  "resolved lib withTime layout v s d = v
   \<or> (s \<noteq> [] \<and> parsed_as lib withTime layout v s = Some (resolved lib withTime layout v s d))
   \<or> (d \<noteq> [] \<and> parsed_as lib withTime layout v d = Some (resolved lib withTime layout v s d))"
  by (auto simp add: resolved_def split: option.splits)

text \<open>\<open>strings.Index\<close> and \<open>strings.SplitN\<close> on a tag, with and without a comma.\<close>

lemma Index_comma:
  "CHR '','' \<notin> set name \<Longrightarrow> Index (name @ CHR '','' # rest) '','' = Some (length name)"
  by (induction name) auto

lemma Index_no_comma:
  "CHR '','' \<notin> set s \<Longrightarrow> Index s '','' = None"
  by (induction s) auto

lemma SplitN_comma:
  "CHR '','' \<notin> set name \<Longrightarrow> SplitN (name @ '','' @ dflt) SEP 2 = [name, dflt]"
  by (simp add: SEP_def numeral_2_eq_2 Index_comma)

lemma SplitN_no_comma:
  "CHR '','' \<notin> set s \<Longrightarrow> SplitN s SEP 2 = [s]"
  by (simp add: SEP_def numeral_2_eq_2 Index_no_comma)

subsection \<open>The inputs of the witnesses\<close>

text \<open>What \<open>test_stdlib\<close> and \<open>loadEnvVars_fieldData\<close> give on the inputs used below.\<close>

lemma test_Atoi_6: "Atoi test_stdlib ''6'' = Inr 6"
  by (simp add: test_stdlib_def strconv_Atoi_def is_digit_def)

lemma test_Atoi_42: "Atoi test_stdlib ''42'' = Inr 42"
  by (simp add: test_stdlib_def strconv_Atoi_def is_digit_def)

lemma test_Atoi_VALUE_1: "\<exists>err. Atoi test_stdlib ''VALUE_1'' = Inl err"
  by (simp add: test_stdlib_def strconv_Atoi_def is_digit_def)

lemma test_ParseFloat_3_14: "ParseFloat test_stdlib ''3.14'' = Inr ''3.14''"
  by (simp add: test_stdlib_def)

lemma fieldData_Var6:
  "loadEnvVars_fieldData False False (SField ''Var6'' [(''env'', ''TEST_6'')] True (GInt 0))
     = \<lparr>envVarName = ''TEST_6'', defaultVal = [], strVal = [], timeLayout = [],
        field = Value True (GInt 0)\<rparr>"
  by (simp add: loadEnvVars_fieldData_def Tag_Get_def ENV_def SplitN_no_comma Let_def
        fieldData_zero_def Field_def)

lemma fieldData_Port:
  "loadEnvVars_fieldData False False (SField ''Port'' [(''env'', ''TEST_1,42'')] True (GInt 0))
     = \<lparr>envVarName = ''TEST_1'', defaultVal = ''42'', strVal = [], timeLayout = [],
        field = Value True (GInt 0)\<rparr>"
  using SplitN_comma [of "''TEST_1''" "''42''"]
  by (simp add: loadEnvVars_fieldData_def Tag_Get_def ENV_def Let_def
        fieldData_zero_def Field_def)

lemma fieldData_Var1:
  "loadEnvVars_fieldData False False (SField ''Var1'' [(''env'', ''TEST_1'')] True (GInt 5))
     = \<lparr>envVarName = ''TEST_1'', defaultVal = [], strVal = [], timeLayout = [],
        field = Value True (GInt 5)\<rparr>"
  by (simp add: loadEnvVars_fieldData_def Tag_Get_def ENV_def SplitN_no_comma Let_def
        fieldData_zero_def Field_def)

subsection \<open>Claims\<close>

text \<open>
  C3. A field of a supported kind whose environment variable is present, non-empty and
  parses for that kind holds exactly the parsed value after the load, whatever the default
  is, and no error is reported for it. First conjunct: \<open>loadEnvVar\<close> on a pointer to the
  variable returns \<open>nil\<close> and leaves the parsed value. Second conjunct: in \<open>loadEnvVars\<close>,
  for an exported field \<open>i\<close> whose tag (or name, under \<open>force\<close>) gives a variable name, the
  struct after the load holds the parsed value in field \<open>i\<close>, and the round of that field
  adds nothing to the collected errors. \<open>parsed_as\<close> is \<open>None\<close> for an unsupported kind, so
  the hypothesis that the text parses includes that the kind is supported.
\<close>

theorem present_parseable_value_is_loaded:
  "(Getenv env nm \<noteq> [] \<and> parsed_as lib withTime layout v (Getenv env nm) = Some v'
      \<longrightarrow> loadEnvVar lib env (Pointer v) nm d withTime layout = Inr (Pointer v', None))
   \<and>
   (i < length fs \<and> exported (fs ! i) \<and> fd = loadEnvVars_fieldData force withTime (fs ! i)
      \<and> envVarName fd \<noteq> [] \<and> Getenv env (envVarName fd) \<noteq> []
      \<and> parsed_as lib withTime (timeLayout fd) (fieldval (fs ! i)) (Getenv env (envVarName fd))
            = Some w
      \<longrightarrow> (\<exists>fs' e. loadEnvVars lib env (Pointer (GStruct fs)) force withTime
                      = Inr (Pointer (GStruct fs'), e)
             \<and> length fs' = length fs
             \<and> fs' ! i = SField (Name (fs ! i)) (Tag (fs ! i)) True w
             \<and> snd (loadEnvVars_field lib env force withTime (fs ! i) errs) = errs))"
proof (intro conjI impI)
  assume "Getenv env nm \<noteq> [] \<and> parsed_as lib withTime layout v (Getenv env nm) = Some v'"
  then have "resolved lib withTime layout v (Getenv env nm) d = v'"
    by (simp add: resolved_env)
  then show "loadEnvVar lib env (Pointer v) nm d withTime layout = Inr (Pointer v', None)"
    by (simp add: loadEnvVar_Pointer)
next
  assume a: "i < length fs \<and> exported (fs ! i)
      \<and> fd = loadEnvVars_fieldData force withTime (fs ! i)
      \<and> envVarName fd \<noteq> [] \<and> Getenv env (envVarName fd) \<noteq> []
      \<and> parsed_as lib withTime (timeLayout fd) (fieldval (fs ! i)) (Getenv env (envVarName fd))
            = Some w"
  let ?fs' = "map (loaded_field lib env force withTime) fs"
  from a have i: "i < length fs" and ex: "exported (fs ! i)"
    and fd: "fd = loadEnvVars_fieldData force withTime (fs ! i)"
    and nm: "envVarName fd \<noteq> []" and s: "Getenv env (envVarName fd) \<noteq> []"
    and p: "parsed_as lib withTime (timeLayout fd) (fieldval (fs ! i))
              (Getenv env (envVarName fd)) = Some w"
    by blast+
  have "resolved lib withTime (timeLayout fd) (fieldval (fs ! i))
                 (Getenv env (envVarName fd)) (defaultVal fd) = w"
    using s p by (rule resolved_env)
  with ex nm have "loaded_field lib env force withTime (fs ! i)
                 = SField (Name (fs ! i)) (Tag (fs ! i)) True w"
    unfolding fd by (simp add: loaded_field_eq Let_def)
  with i have "?fs' ! i = SField (Name (fs ! i)) (Tag (fs ! i)) True w" by simp
  then show "\<exists>fs' e. loadEnvVars lib env (Pointer (GStruct fs)) force withTime
                      = Inr (Pointer (GStruct fs'), e)
             \<and> length fs' = length fs
             \<and> fs' ! i = SField (Name (fs ! i)) (Tag (fs ! i)) True w
             \<and> snd (loadEnvVars_field lib env force withTime (fs ! i) errs) = errs"
    by (simp add: loadEnvVars_GStruct loadEnvVars_field_snd)
qed

text \<open>
  The witness: \<open>TEST_6=6\<close> as in \<open>env_test.go\<close>, an \<open>int\<close> variable with default \<open>7\<close>, and
  a struct of one \<open>int\<close> field tagged \<open>env:"TEST_6"\<close>.
\<close>

theorem present_parseable_value_is_loaded_witness:
  "loadEnvVar test_stdlib [''TEST_6'' \<mapsto> ''6''] (Pointer (GInt 0)) ''TEST_6'' ''7'' False []
     = Inr (Pointer (GInt 6), None)
   \<and> (\<exists>fs' e. loadEnvVars test_stdlib [''TEST_6'' \<mapsto> ''6'']
                 (Pointer (GStruct [SField ''Var6'' [(''env'', ''TEST_6'')] True (GInt 0)]))
                 False False = Inr (Pointer (GStruct fs'), e)
              \<and> length fs' = 1
              \<and> fs' ! 0 = SField ''Var6'' [(''env'', ''TEST_6'')] True (GInt 6))"
  using present_parseable_value_is_loaded
    [of "[''TEST_6'' \<mapsto> ''6'']" "''TEST_6''" test_stdlib False "[]" "GInt 0" "GInt 6" "''7''"
        0 "[SField ''Var6'' [(''env'', ''TEST_6'')] True (GInt 0)]"
        "loadEnvVars_fieldData False False (SField ''Var6'' [(''env'', ''TEST_6'')] True (GInt 0))"
        False "GInt 6" "[]"]
  by (auto simp add: fieldData_Var6 Getenv_def parsed_as_def test_Atoi_6)

text \<open>
  C4. A field whose environment variable is absent, empty, or present but unparsable, and
  whose default is non-empty and parses, holds the parsed default after the load, and the
  load reports no error for it. First conjunct: \<open>loadEnvVar\<close> returns \<open>nil\<close> and leaves the
  parsed default. Second conjunct: the same for an exported field \<open>i\<close> of a struct under
  \<open>loadEnvVars\<close>, whose round adds nothing to the collected errors.
\<close>

theorem parseable_default_is_loaded:
  "((Getenv env nm = [] \<or> parsed_as lib withTime layout v (Getenv env nm) = None)
      \<and> d \<noteq> [] \<and> parsed_as lib withTime layout v d = Some v'
      \<longrightarrow> loadEnvVar lib env (Pointer v) nm d withTime layout = Inr (Pointer v', None))
   \<and>
   (i < length fs \<and> exported (fs ! i) \<and> fd = loadEnvVars_fieldData force withTime (fs ! i)
      \<and> envVarName fd \<noteq> []
      \<and> (Getenv env (envVarName fd) = []
          \<or> parsed_as lib withTime (timeLayout fd) (fieldval (fs ! i))
               (Getenv env (envVarName fd)) = None)
      \<and> defaultVal fd \<noteq> []
      \<and> parsed_as lib withTime (timeLayout fd) (fieldval (fs ! i)) (defaultVal fd) = Some w
      \<longrightarrow> (\<exists>fs' e. loadEnvVars lib env (Pointer (GStruct fs)) force withTime
                      = Inr (Pointer (GStruct fs'), e)
             \<and> length fs' = length fs
             \<and> fs' ! i = SField (Name (fs ! i)) (Tag (fs ! i)) True w
             \<and> snd (loadEnvVars_field lib env force withTime (fs ! i) errs) = errs))"
proof (intro conjI impI)
  assume "(Getenv env nm = [] \<or> parsed_as lib withTime layout v (Getenv env nm) = None)
      \<and> d \<noteq> [] \<and> parsed_as lib withTime layout v d = Some v'"
  then have "resolved lib withTime layout v (Getenv env nm) d = v'"
    by (simp add: resolved_default)
  then show "loadEnvVar lib env (Pointer v) nm d withTime layout = Inr (Pointer v', None)"
    by (simp add: loadEnvVar_Pointer)
next
  assume a: "i < length fs \<and> exported (fs ! i)
      \<and> fd = loadEnvVars_fieldData force withTime (fs ! i)
      \<and> envVarName fd \<noteq> []
      \<and> (Getenv env (envVarName fd) = []
          \<or> parsed_as lib withTime (timeLayout fd) (fieldval (fs ! i))
               (Getenv env (envVarName fd)) = None)
      \<and> defaultVal fd \<noteq> []
      \<and> parsed_as lib withTime (timeLayout fd) (fieldval (fs ! i)) (defaultVal fd) = Some w"
  let ?fs' = "map (loaded_field lib env force withTime) fs"
  from a have i: "i < length fs" by (elim conjE)
  from a have ex: "exported (fs ! i)" by (elim conjE)
  from a have fd: "fd = loadEnvVars_fieldData force withTime (fs ! i)" by (elim conjE)
  from a have nm: "envVarName fd \<noteq> []" by (elim conjE)
  from a have s: "Getenv env (envVarName fd) = []
          \<or> parsed_as lib withTime (timeLayout fd) (fieldval (fs ! i))
               (Getenv env (envVarName fd)) = None" by (elim conjE)
  from a have d: "defaultVal fd \<noteq> []" by (elim conjE)
  from a have p: "parsed_as lib withTime (timeLayout fd) (fieldval (fs ! i)) (defaultVal fd)
                    = Some w" by (elim conjE)
  have "resolved lib withTime (timeLayout fd) (fieldval (fs ! i))
                 (Getenv env (envVarName fd)) (defaultVal fd) = w"
    using s d p by (rule resolved_default)
  with ex nm have "loaded_field lib env force withTime (fs ! i)
                 = SField (Name (fs ! i)) (Tag (fs ! i)) True w"
    unfolding fd by (simp add: loaded_field_eq Let_def)
  with i have "?fs' ! i = SField (Name (fs ! i)) (Tag (fs ! i)) True w" by simp
  then show "\<exists>fs' e. loadEnvVars lib env (Pointer (GStruct fs)) force withTime
                      = Inr (Pointer (GStruct fs'), e)
             \<and> length fs' = length fs
             \<and> fs' ! i = SField (Name (fs ! i)) (Tag (fs ! i)) True w
             \<and> snd (loadEnvVars_field lib env force withTime (fs ! i) errs) = errs"
    by (simp add: loadEnvVars_GStruct loadEnvVars_field_snd)
qed

text \<open>
  The witness: the \<open>float64\<close> of \<open>env_test.go\<close> (\<open>TEST_7\<close> unset, default \<open>3.14\<close>), and an
  \<open>int\<close> field tagged \<open>env:"TEST_1,42"\<close> while \<open>TEST_1=VALUE_1\<close> does not parse.
\<close>

theorem parseable_default_is_loaded_witness:
  "loadEnvVar test_stdlib [''TEST_1'' \<mapsto> ''VALUE_1''] (Pointer (GFloat64 ''0''))
       ''TEST_7'' ''3.14'' False []
     = Inr (Pointer (GFloat64 ''3.14''), None)
   \<and> (\<exists>fs' e. loadEnvVars test_stdlib [''TEST_1'' \<mapsto> ''VALUE_1'']
                 (Pointer (GStruct [SField ''Port'' [(''env'', ''TEST_1,42'')] True (GInt 0)]))
                 False False = Inr (Pointer (GStruct fs'), e)
              \<and> length fs' = 1
              \<and> fs' ! 0 = SField ''Port'' [(''env'', ''TEST_1,42'')] True (GInt 42))"
  using parseable_default_is_loaded
    [of "[''TEST_1'' \<mapsto> ''VALUE_1'']" "''TEST_7''" test_stdlib False "[]" "GFloat64 ''0''" "''3.14''"
        "GFloat64 ''3.14''"
        0 "[SField ''Port'' [(''env'', ''TEST_1,42'')] True (GInt 0)]"
        "loadEnvVars_fieldData False False (SField ''Port'' [(''env'', ''TEST_1,42'')] True (GInt 0))"
        False "GInt 42" "[]"]
    test_Atoi_VALUE_1
  by (auto simp add: fieldData_Port Getenv_def parsed_as_def test_Atoi_42 test_ParseFloat_3_14)

text \<open>
  C5. Conversion is atomic: after any load a field holds its prior value, or the value its
  non-empty environment text parses to, or the value its non-empty default parses to, and
  nothing else. First conjunct: the variable behind the pointer given to \<open>loadEnvVar\<close>.
  Second conjunct: every field of the struct given to \<open>loadEnvVars\<close>; the load keeps the
  number of fields, their names, tags and visibility.
\<close>

theorem conversion_is_atomic:
  "(\<exists>v' e. loadEnvVar lib env (Pointer v) nm d withTime layout = Inr (Pointer v', e)
      \<and> (v' = v
         \<or> (Getenv env nm \<noteq> [] \<and> parsed_as lib withTime layout v (Getenv env nm) = Some v')
         \<or> (d \<noteq> [] \<and> parsed_as lib withTime layout v d = Some v')))
   \<and>
   (\<exists>fs' e. loadEnvVars lib env (Pointer (GStruct fs)) force withTime
               = Inr (Pointer (GStruct fs'), e)
      \<and> length fs' = length fs
      \<and> (\<forall>i < length fs.
            Name (fs' ! i) = Name (fs ! i) \<and> Tag (fs' ! i) = Tag (fs ! i)
            \<and> exported (fs' ! i) = exported (fs ! i)
            \<and> (let fd = loadEnvVars_fieldData force withTime (fs ! i);
                    s = Getenv env (envVarName fd)
                in fieldval (fs' ! i) = fieldval (fs ! i)
                   \<or> (s \<noteq> [] \<and> parsed_as lib withTime (timeLayout fd) (fieldval (fs ! i)) s
                                 = Some (fieldval (fs' ! i)))
                   \<or> (defaultVal fd \<noteq> []
                       \<and> parsed_as lib withTime (timeLayout fd) (fieldval (fs ! i))
                            (defaultVal fd) = Some (fieldval (fs' ! i))))))"
proof (rule conjI)
  show "\<exists>v' e. loadEnvVar lib env (Pointer v) nm d withTime layout = Inr (Pointer v', e)
      \<and> (v' = v
         \<or> (Getenv env nm \<noteq> [] \<and> parsed_as lib withTime layout v (Getenv env nm) = Some v')
         \<or> (d \<noteq> [] \<and> parsed_as lib withTime layout v d = Some v'))"
    using resolved_cases [of lib withTime layout v "Getenv env nm" d]
    by (simp add: loadEnvVar_Pointer)
next
  let ?fs' = "map (loaded_field lib env force withTime) fs"
  have "Name (?fs' ! i) = Name (fs ! i) \<and> Tag (?fs' ! i) = Tag (fs ! i)
            \<and> exported (?fs' ! i) = exported (fs ! i)
            \<and> (let fd = loadEnvVars_fieldData force withTime (fs ! i);
                    s = Getenv env (envVarName fd)
                in fieldval (?fs' ! i) = fieldval (fs ! i)
                   \<or> (s \<noteq> [] \<and> parsed_as lib withTime (timeLayout fd) (fieldval (fs ! i)) s
                                 = Some (fieldval (?fs' ! i)))
                   \<or> (defaultVal fd \<noteq> []
                       \<and> parsed_as lib withTime (timeLayout fd) (fieldval (fs ! i))
                            (defaultVal fd) = Some (fieldval (?fs' ! i))))"
    if i: "i < length fs" for i
  proof -
    let ?fd = "loadEnvVars_fieldData force withTime (fs ! i)"
    let ?r = "resolved lib withTime (timeLayout ?fd) (fieldval (fs ! i))
                (Getenv env (envVarName ?fd)) (defaultVal ?fd)"
    show ?thesis
    proof (cases "envVarName ?fd \<noteq> [] \<and> exported (fs ! i)")
      case True
      then have "?fs' ! i = SField (Name (fs ! i)) (Tag (fs ! i)) (exported (fs ! i)) ?r"
        using i by (simp add: loaded_field_eq Let_def)
      then show ?thesis
        using resolved_cases [of lib withTime "timeLayout ?fd" "fieldval (fs ! i)"
                "Getenv env (envVarName ?fd)" "defaultVal ?fd"]
        by (simp add: Let_def)
    next
      case False
      then have "?fs' ! i = fs ! i"
        using i by (auto simp add: loaded_field_eq Let_def)
      then show ?thesis by (simp add: Let_def)
    qed
  qed
  then show "\<exists>fs' e. loadEnvVars lib env (Pointer (GStruct fs)) force withTime
               = Inr (Pointer (GStruct fs'), e)
      \<and> length fs' = length fs
      \<and> (\<forall>i < length fs.
            Name (fs' ! i) = Name (fs ! i) \<and> Tag (fs' ! i) = Tag (fs ! i)
            \<and> exported (fs' ! i) = exported (fs ! i)
            \<and> (let fd = loadEnvVars_fieldData force withTime (fs ! i);
                    s = Getenv env (envVarName fd)
                in fieldval (fs' ! i) = fieldval (fs ! i)
                   \<or> (s \<noteq> [] \<and> parsed_as lib withTime (timeLayout fd) (fieldval (fs ! i)) s
                                 = Some (fieldval (fs' ! i)))
                   \<or> (defaultVal fd \<noteq> []
                       \<and> parsed_as lib withTime (timeLayout fd) (fieldval (fs ! i))
                            (defaultVal fd) = Some (fieldval (fs' ! i)))))"
    unfolding loadEnvVars_GStruct by (intro exI [of _ ?fs'] exI [of _ None] conjI) simp_all
qed

text \<open>
  The witness: an \<open>int\<close> field holding \<open>5\<close>, tagged \<open>env:"TEST_1"\<close>, while \<open>TEST_1=VALUE_1\<close>
  does not parse and there is no default: of the three alternatives only the prior value
  is left.
\<close>

theorem conversion_is_atomic_witness:
  "\<exists>fs' e. loadEnvVars test_stdlib [''TEST_1'' \<mapsto> ''VALUE_1'']
              (Pointer (GStruct [SField ''Var1'' [(''env'', ''TEST_1'')] True (GInt 5)]))
              False False = Inr (Pointer (GStruct fs'), e)
           \<and> length fs' = 1 \<and> fieldval (fs' ! 0) = GInt 5"
  using conversion_is_atomic
    [of test_stdlib "[''TEST_1'' \<mapsto> ''VALUE_1'']" "GInt 5" "''TEST_1''" "[]" False "[]"
        "[SField ''Var1'' [(''env'', ''TEST_1'')] True (GInt 5)]" False]
    test_Atoi_VALUE_1
  by (auto simp add: fieldData_Var1 Getenv_def parsed_as_def)

text \<open>
  C6. A struct load never modifies an unexported field, whatever its tag says, and a
  struct whose fields are all unexported is left as it was, with \<open>nil\<close> returned.
\<close>

theorem unexported_fields_are_untouched:
  "\<exists>fs' e. loadEnvVars lib env (Pointer (GStruct fs)) force withTime
              = Inr (Pointer (GStruct fs'), e)
     \<and> length fs' = length fs
     \<and> (\<forall>i < length fs. \<not> exported (fs ! i) \<longrightarrow> fs' ! i = fs ! i)
     \<and> ((\<forall>f \<in> set fs. \<not> exported f) \<longrightarrow> fs' = fs \<and> e = None)"
proof -
  let ?fs' = "map (loaded_field lib env force withTime) fs"
  have u: "loaded_field lib env force withTime f = f" if "\<not> exported f" for f
    using that by (simp add: loaded_field_eq Let_def)
  have "\<forall>i < length fs. \<not> exported (fs ! i) \<longrightarrow> ?fs' ! i = fs ! i"
    by (simp add: u)
  moreover have "(\<forall>f \<in> set fs. \<not> exported f) \<longrightarrow> ?fs' = fs"
    by (simp add: u map_idI)
  ultimately show ?thesis
    unfolding loadEnvVars_GStruct by (intro exI [of _ ?fs'] exI [of _ None] conjI) simp_all
qed

text \<open>
  The witness: \<open>Type2\<close> of \<open>env_test.go\<close>, two unexported strings tagged with variables
  that are set.
\<close>

theorem unexported_fields_are_untouched_witness:
  "loadEnvVars test_stdlib [''TEST_1'' \<mapsto> ''VALUE_1'', ''TEST_2'' \<mapsto> ''VALUE_2'']
     (Pointer (GStruct [SField ''var1'' [(''env'', ''TEST_1'')] False (GString []),
                        SField ''var2'' [(''env'', ''TEST_2'')] False (GString [])]))
     False False
   = Inr (Pointer (GStruct [SField ''var1'' [(''env'', ''TEST_1'')] False (GString []),
                            SField ''var2'' [(''env'', ''TEST_2'')] False (GString [])]),
          None)"
  using unexported_fields_are_untouched
    [of test_stdlib "[''TEST_1'' \<mapsto> ''VALUE_1'', ''TEST_2'' \<mapsto> ''VALUE_2'']"
        "[SField ''var1'' [(''env'', ''TEST_1'')] False (GString []),
          SField ''var2'' [(''env'', ''TEST_2'')] False (GString [])]" False False]
  by auto

text \<open>
  C8. In a tag \<open>NAME,DEFAULT\<close> only the first comma counts: the variable name is the text
  before it and the default is all the rest, further commas included. \<open>NAME\<close> is the
  text up to the first comma, so it has no comma itself; under \<open>force\<close> an empty \<open>NAME\<close> is
  replaced by the field's own name, hence the third hypothesis.
\<close>

theorem tag_splits_at_first_comma:
  assumes "CHR '','' \<notin> set name"
    and "Tag_Get (Tag f) ENV = name @ '','' @ dflt"
    and "name \<noteq> [] \<or> \<not> force"
  shows "SplitN (Tag_Get (Tag f) ENV) SEP 2 = [name, dflt]
     \<and> envVarName (loadEnvVars_fieldData force withTime f) = name
     \<and> defaultVal (loadEnvVars_fieldData force withTime f) = dflt"
proof -
  have s: "SplitN (Tag_Get (Tag f) ENV) SEP 2 = [name, dflt]"
    using SplitN_comma [OF assms(1), of dflt] assms(2) by simp
  then show ?thesis
    using assms(3) by (auto simp add: loadEnvVars_fieldData_def Let_def fieldData_zero_def)
qed

text \<open>The witness: a default with two more commas in it.\<close>

theorem tag_splits_at_first_comma_witness:
  "SplitN ''HOSTS,a,b,c'' SEP 2 = [''HOSTS'', ''a,b,c'']
   \<and> envVarName (loadEnvVars_fieldData True False
                   (SField ''Hosts'' [(''env'', ''HOSTS,a,b,c'')] True
                      (GString [] :: (string, string) gval)))
       = ''HOSTS''
   \<and> defaultVal (loadEnvVars_fieldData True False
                   (SField ''Hosts'' [(''env'', ''HOSTS,a,b,c'')] True
                      (GString [] :: (string, string) gval)))
       = ''a,b,c''"
  using tag_splits_at_first_comma
    [of "''HOSTS''"
        "SField ''Hosts'' [(''env'', ''HOSTS,a,b,c'')] True (GString [] :: (string, string) gval)"
        "''a,b,c''" True False]
  by (simp add: Tag_Get_def ENV_def)

text \<open>
  C10, as stated, covers every target that does not dereference to a struct. A target
  that is no pointer does not dereference at all, and there the load neither returns
  \<open>nil\<close> nor an error: \<open>LoadEnvVarsT("hello")\<close> panics in \<open>reflect.Value.Elem\<close>.
\<close>

theorem LoadEnvVarsT_of_string_value_panics:
  "LoadEnvVarsT test_stdlib [''TEST_1'' \<mapsto> ''VALUE_1''] (NonPointer (GString ''hello''))
     = Inl (ValueError ''reflect.Value.Elem'' KString)"
  by (simp add: LoadEnvVarsT_def loadEnvVars_NonPointer)

text \<open>
  C10, amended. A struct load whose target is a pointer that does not dereference to a
  struct (a nil pointer, whose \<open>Elem\<close> is the zero Value, or a pointer to a value of
  another kind) processes no field, changes nothing and returns \<open>nil\<close>.
\<close>

theorem non_struct_target_is_ignored:
  assumes "ptr = NilPointer \<or> (\<exists>v. ptr = Pointer v \<and> gkind v \<noteq> KStruct)"
  shows "loadEnvVars lib env ptr force withTime = Inr (ptr, None)
     \<and> LoadEnvVars lib env ptr = Inr (ptr, None)
     \<and> LoadEnvVarsF lib env ptr = Inr (ptr, None)
     \<and> LoadEnvVarsT lib env ptr = Inr (ptr, None)
     \<and> LoadEnvVarsTF lib env ptr = Inr (ptr, None)"
proof -
  have "loadEnvVars lib env ptr fo wt = Inr (ptr, None)" for fo wt
    using assms by (auto simp add: loadEnvVars_NilPointer loadEnvVars_not_struct)
  then show ?thesis
    by (simp add: LoadEnvVars_def LoadEnvVarsF_def LoadEnvVarsT_def LoadEnvVarsTF_def)
qed

text \<open>The witness: a pointer to an \<open>int\<close>.\<close>

theorem non_struct_target_is_ignored_witness:
  "LoadEnvVarsTF test_stdlib [''TEST_6'' \<mapsto> ''6''] (Pointer (GInt 5))
     = Inr (Pointer (GInt 5), None)
   \<and> LoadEnvVars test_stdlib [''TEST_6'' \<mapsto> ''6''] (Pointer (GInt 5))
     = Inr (Pointer (GInt 5), None)"
  using non_struct_target_is_ignored
    [of "Pointer (GInt 5)" test_stdlib "[''TEST_6'' \<mapsto> ''6'']" False False]
  by simp

text \<open>
  C9, as stated, says that every public entry point returns \<open>nil\<close> for every input. An
  argument that is not a pointer is an input too, and there \<open>reflect.Value.Elem\<close> panics:
  \<open>LoadEnvVars(5)\<close> does not return.
\<close>

theorem LoadEnvVars_of_non_pointer_panics:
  "LoadEnvVars test_stdlib Map.empty (NonPointer (GInt 5))
     = Inl (ValueError ''reflect.Value.Elem'' KInt)"
  by (simp add: LoadEnvVars_def loadEnvVars_NonPointer)

text \<open>
  C9, amended. For every argument that is a pointer, nil or not, each of the six public
  entry points returns \<open>nil\<close>: \<open>AddError\<close> changes only its own copy of the receiver, so
  \<open>setField\<close> and \<open>validateAndSet\<close> always return the zero \<open>FieldError\<close>, no field error is
  ever recorded, and no call that returns reports a failure.
\<close>

theorem entry_points_return_nil_for_pointers:
  assumes "ptr = NilPointer \<or> (\<exists>v. ptr = Pointer v)"
  shows "snd (setField env fd setFunc) = FieldError_zero
     \<and> snd (validateAndSet lib env fd withTime) = FieldError_zero
     \<and> (\<exists>p. LoadEnvVars lib env ptr = Inr (p, None))
     \<and> (\<exists>p. LoadEnvVarsF lib env ptr = Inr (p, None))
     \<and> (\<exists>p. LoadEnvVarsT lib env ptr = Inr (p, None))
     \<and> (\<exists>p. LoadEnvVarsTF lib env ptr = Inr (p, None))
     \<and> (\<exists>p. LoadEnvVar lib env ptr nm d = Inr (p, None))
     \<and> (\<exists>p. LoadEnvVarT lib env ptr nm d layout = Inr (p, None))"
proof -
  have s: "\<exists>p. loadEnvVars lib env ptr fo wt = Inr (p, None)" for fo wt
  proof -
    from assms consider "ptr = NilPointer" | v where "ptr = Pointer v" by blast
    then show ?thesis
    proof cases
      case 1
      then show ?thesis by (simp add: loadEnvVars_NilPointer)
    next
      case 2
      then show ?thesis using loadEnvVars_Pointer [of lib env v fo wt] by auto
    qed
  qed
  have f: "\<exists>p. loadEnvVar lib env ptr nm d wt ly = Inr (p, None)" for wt ly
    using assms by (auto simp add: loadEnvVar_NilPointer loadEnvVar_Pointer)
  show ?thesis
    using s f
    by (simp add: setField_snd validateAndSet_snd LoadEnvVars_def LoadEnvVarsF_def
          LoadEnvVarsT_def LoadEnvVarsTF_def LoadEnvVar_def LoadEnvVarT_def)
qed

text \<open>
  The witness: a \<open>time.Time\<close> variable, the variable \<open>TEST_TIME_1\<close> set to a text that is
  no date, and a default that is no date either.
\<close>

theorem entry_points_return_nil_for_pointers_witness:
  "\<exists>p. LoadEnvVarT test_stdlib [''TEST_TIME_1'' \<mapsto> ''tomorrow'']
          (Pointer (GTime ''0001-01-01 00:00:00 +0000 UTC''))
          ''TEST_TIME_1'' ''never'' ''02/01/2006'' = Inr (p, None)"
  using entry_points_return_nil_for_pointers
    [of "Pointer (GTime ''0001-01-01 00:00:00 +0000 UTC'')" "[''TEST_TIME_1'' \<mapsto> ''tomorrow'']"
        _ _ test_stdlib _ "''TEST_TIME_1''" "''never''" "''02/01/2006''"]
  by simp

text \<open>
  C1 fails on the code. \<open>var x int; LoadEnvVar(&x, "TEST_X", "")\<close> with \<open>TEST_X\<close> unset, and
  the struct load of one \<open>int\<close> field tagged \<open>env:"TEST_X"\<close>: the variable is absent and
  there is no default, the field keeps its value, and the load returns \<open>nil\<close> instead of a
  field error carrying \<open>DEFAULT_VALUE_NOT_SPECIFIED\<close>.
\<close>

theorem missing_default_is_not_reported:
  "LoadEnvVar test_stdlib Map.empty (Pointer (GInt 0)) ''TEST_X'' []
     = Inr (Pointer (GInt 0), None)
   \<and> LoadEnvVars test_stdlib Map.empty
       (Pointer (GStruct [SField ''Var1'' [(''env'', ''TEST_X'')] True (GInt 0)]))
     = Inr (Pointer (GStruct [SField ''Var1'' [(''env'', ''TEST_X'')] True (GInt 0)]), None)"
  by (simp add: LoadEnvVar_def loadEnvVar_Pointer LoadEnvVars_def loadEnvVars_GStruct
        loaded_field_eq resolved_def Getenv_def Let_def loadEnvVars_fieldData_def Tag_Get_def
        ENV_def SplitN_no_comma fieldData_zero_def Field_def)

text \<open>
  C2 fails on the code. \<open>var x int\<close> with \<open>TEST_1=VALUE_1\<close>, which is no integer:
  \<open>LoadEnvVar(&x, "TEST_1", "")\<close> (no default) and \<open>LoadEnvVar(&x, "TEST_1", "abc")\<close> (a
  default that does not parse either) both return \<open>nil\<close> instead of a field error carrying
  \<open>ENV_VAR_PARSING_ERROR\<close> and one of the two default codes.
\<close>

theorem parse_failures_are_not_reported:
  "LoadEnvVar test_stdlib [''TEST_1'' \<mapsto> ''VALUE_1''] (Pointer (GInt 0)) ''TEST_1'' []
     = Inr (Pointer (GInt 0), None)
   \<and> LoadEnvVar test_stdlib [''TEST_1'' \<mapsto> ''VALUE_1''] (Pointer (GInt 0)) ''TEST_1'' ''abc''
     = Inr (Pointer (GInt 0), None)"
proof -
  obtain e1 where "Atoi test_stdlib ''VALUE_1'' = Inl e1"
    using test_Atoi_VALUE_1 by blast
  moreover have "\<exists>e2. Atoi test_stdlib ''abc'' = Inl e2"
    by (simp add: test_stdlib_def strconv_Atoi_def is_digit_def)
  ultimately show ?thesis
    by (auto simp add: LoadEnvVar_def loadEnvVar_Pointer resolved_def parsed_as_def Getenv_def)
qed

text \<open>
  C7 fails on the code in its second half. \<open>TEST_1=VALUE_1\<close> and \<open>TEST_2\<close> unset; a struct
  with \<open>Var1 int `env:"TEST_1"`\<close> and \<open>Var2 string `env:"TEST_2"`\<close>: both fields fail (one
  does not parse, one is absent, neither has a default), and the load returns \<open>nil\<close>, the
  very result of a load in which no field fails.
\<close>

theorem failing_struct_load_returns_nil:
  "LoadEnvVars test_stdlib [''TEST_1'' \<mapsto> ''VALUE_1'']
     (Pointer (GStruct [SField ''Var1'' [(''env'', ''TEST_1'')] True (GInt 0),
                        SField ''Var2'' [(''env'', ''TEST_2'')] True (GString [])]))
   = Inr (Pointer (GStruct [SField ''Var1'' [(''env'', ''TEST_1'')] True (GInt 0),
                            SField ''Var2'' [(''env'', ''TEST_2'')] True (GString [])]),
          None)"
proof -
  obtain e1 where "Atoi test_stdlib ''VALUE_1'' = Inl e1"
    using test_Atoi_VALUE_1 by blast
  then show ?thesis
    by (simp add: LoadEnvVars_def loadEnvVars_GStruct loaded_field_eq resolved_def
          parsed_as_def Getenv_def Let_def loadEnvVars_fieldData_def Tag_Get_def ENV_def
          SplitN_no_comma fieldData_zero_def Field_def)
qed

end
